theory Spec2Isabelle
  imports Complex_Main "HOL-Library.Sublist" "HOL-Library.Log_Nat"
begin

section \<open>JavaScript numbers\<close>

text \<open>
  A JavaScript number is an IEEE 754 double: not-a-number, an infinity, or a finite value,
  which is a rational number. The two zeros are not told apart; the code looked at here
  treats them alike.
\<close>

datatype number = NaN | PosInf | NegInf | Finite rat

text \<open>
  Rounding a rational number to the nearest double, ties to the even significand. The
  binary exponent of \<open>a > 0\<close> is the \<open>e\<close> with \<open>2\<^sup>e \<le> a < 2\<^sup>e\<^sup>+\<^sup>1\<close>, never taken below
  \<open>-1022\<close> (subnormal numbers); doubles with that exponent are \<open>2\<^sup>e\<^sup>-\<^sup>5\<^sup>2\<close> apart, and a result
  of \<open>2\<^sup>1\<^sup>0\<^sup>2\<^sup>4\<close> or more is an infinity.
\<close>

definition exponent :: "rat \<Rightarrow> int" where
  "exponent a = (if 1 \<le> a then bitlen \<lfloor>a\<rfloor> - 1 else - bitlen (\<lceil>1 / a\<rceil> - 1))"

definition roundHalfEven :: "rat \<Rightarrow> int" where
  "roundHalfEven x =
     (let f = \<lfloor>x\<rfloor>; d = x - of_int f
      in if d < 1 / 2 then f
         else if 1 / 2 < d then f + 1
         else if even f then f else f + 1)"

definition round64 :: "rat \<Rightarrow> number" where
  "round64 r =
     (if r = 0 then Finite 0
      else
        let a = \<bar>r\<bar>;
            e = max (exponent a) (- 1022);
            q = 2 powi (e - 52);
            v = of_int (roundHalfEven (a / q)) * q
        in if 2 ^ 1024 \<le> v then (if 0 < r then PosInf else NegInf)
           else Finite (if 0 < r then v else - v))"





section \<open>Data model of the hook registry (extension.ts, uninstall.ts)\<close>

text \<open>
  The model follows the interface \<^verbatim>\<open>HooksJson\<close> that extension.ts and uninstall.ts declare
  for the parsed file and cast the result of \<^verbatim>\<open>JSON.parse\<close> to. The order of the keys of
  an object is not represented: assigning to an existing key keeps its place, and a new key
  is added last.

  Values of unknown shape that the code carries along without looking at them
  (\<^verbatim>\<open>[key: string]: unknown\<close> in the interface \<^verbatim>\<open>HooksJson\<close>) are JSON values as
  \<^verbatim>\<open>JSON.parse\<close> returns them.
\<close>

datatype json =
    JNull
  | JBool bool
  | JNum number
  | JStr string
  | JArr "json list"
  | JObj "(string \<times> json) list"

text \<open>
  One registered callback, \<^verbatim>\<open>{ command: string; [key: string]: unknown }\<close>: the command and,
  in \<open>props\<close>, every other property of the entry.
\<close>

record hook =
  command :: string
  props :: "(string \<times> json) list"

text \<open>
  The object \<^verbatim>\<open>hooks.hooks\<close>: the two optional arrays the extension works on and, in
  \<open>otherKinds\<close>, every other hook type of the object.
\<close>

record hook_kinds =
  beforeSubmitPrompt :: "hook list option"
  stop :: "hook list option"
  otherKinds :: "(string \<times> json) list"

text \<open>
  The document \<^verbatim>\<open>HooksJson\<close>. The interface declares \<^verbatim>\<open>hooks\<close> as required, but the code
  tests \<^verbatim>\<open>!hooks.hooks\<close> after parsing, so the field may be missing here (\<open>None\<close>).
  \<open>otherFields\<close> holds every other top-level field.
\<close>

record HooksJson =
  version :: int
  hooks :: "hook_kinds option"
  otherFields :: "(string \<times> json) list"

datatype js_error = TypeError

definition EXTENSION_NAME :: string where
  "EXTENSION_NAME = ''cursor-bird''"

text \<open>\<^verbatim>\<open>s.includes(t)\<close>: \<open>t\<close> occurs in \<open>s\<close> as a contiguous substring.\<close>

definition includes_str :: "string \<Rightarrow> string \<Rightarrow> bool" where
  "includes_str s t = sublist t s"

text \<open>
  The test \<^verbatim>\<open>h.command && h.command.includes(extensionName)\<close>, which extension.ts and
  uninstall.ts use to recognise the extension's own entries; the empty string is falsy.
\<close>

definition isCursorBird :: "string \<Rightarrow> hook \<Rightarrow> bool" where
  "isCursorBird extensionName h = (command h \<noteq> [] \<and> includes_str (command h) extensionName)"

section \<open>updateHooks\<close>

text \<open>
  The function mutates its argument and returns whether it changed anything; the model
  returns the flag together with the document after the call. Reading
  \<^verbatim>\<open>hooks.hooks.beforeSubmitPrompt\<close> when \<^verbatim>\<open>hooks.hooks\<close> is undefined throws.
\<close>

definition updateHooks ::
  "HooksJson \<Rightarrow> string \<Rightarrow> string \<Rightarrow> string \<Rightarrow> js_error + (bool \<times> HooksJson)" where
  "updateHooks doc extensionName startScript stopScript =
     (case hooks doc of
        None \<Rightarrow> Inl TypeError
      | Some H \<Rightarrow>
          let start0 = (case beforeSubmitPrompt H of None \<Rightarrow> [] | Some xs \<Rightarrow> xs);
              stop0 = (case stop H of None \<Rightarrow> [] | Some xs \<Rightarrow> xs);
              originalStartCount = length start0;
              originalStopCount = length stop0;
              start1 = filter (\<lambda>h. if \<not> isCursorBird extensionName h then True
                                     else command h = startScript) start0;
              stop1 = filter (\<lambda>h. if \<not> isCursorBird extensionName h then True
                                    else command h = stopScript) stop0;
              removed = (length start1 \<noteq> originalStartCount \<or> length stop1 \<noteq> originalStopCount);
              startExists = list_ex (\<lambda>h. command h = startScript) start1;
              stopExists = list_ex (\<lambda>h. command h = stopScript) stop1;
              start2 = (if \<not> startExists
                        then start1 @ [\<lparr>command = startScript, props = []\<rparr>] else start1);
              stop2 = (if \<not> stopExists
                       then stop1 @ [\<lparr>command = stopScript, props = []\<rparr>] else stop1)
          in Inr (removed \<or> \<not> startExists \<or> \<not> stopExists,
                  doc\<lparr>hooks := Some (H\<lparr>beforeSubmitPrompt := Some start2, stop := Some stop2\<rparr>)\<rparr>))"

section \<open>getHookScriptPaths\<close>

text \<open>
  \<^verbatim>\<open>hookScriptPath.replace(/hook\.(sh|bat)$/, ...)\<close>: the pattern is anchored at the end of the
  string, so it matches at most once, exactly when the path ends in \<^verbatim>\<open>hook.sh\<close> or
  \<^verbatim>\<open>hook.bat\<close>. \<open>isWindows\<close> stands for \<^verbatim>\<open>process.platform === 'win32'\<close>.
\<close>

definition getHookScriptPaths :: "bool \<Rightarrow> string \<Rightarrow> string \<times> string" where
  "getHookScriptPaths isWindows hookScriptPath =
     (let startScript = hookScriptPath;
          replacement = ''hook-stop.'' @ (if isWindows then ''bat'' else ''sh'');
          stopScript =
            (if suffix ''hook.sh'' hookScriptPath
             then take (length hookScriptPath - length ''hook.sh'') hookScriptPath @ replacement
             else if suffix ''hook.bat'' hookScriptPath
             then take (length hookScriptPath - length ''hook.bat'') hookScriptPath @ replacement
             else hookScriptPath)
      in (startScript, stopScript))"

section \<open>setupHooksFileGlobal\<close>

text \<open>
  The hooks file as the code sees it: absent (\<^verbatim>\<open>fs.existsSync\<close> is false), present with a
  content on which \<^verbatim>\<open>JSON.parse\<close> throws, or present with a parsed document. Writing
  \<^verbatim>\<open>JSON.stringify(hooks, null, 2)\<close> leaves the file in the state \<open>Parsed hooks\<close>.
  Failures of the file system itself (a write that throws) are not part of the model.
\<close>

datatype hooks_file = NoFile | Malformed | Parsed HooksJson

definition setupHooksFileGlobal ::
  "bool \<Rightarrow> hooks_file \<Rightarrow> string \<Rightarrow> js_error + (bool \<times> hooks_file)" where
  "setupHooksFileGlobal isWindows file hookScriptPath =
     (let fresh = \<lparr>version = 1,
                    hooks = Some \<lparr>beforeSubmitPrompt = None, stop = None, otherKinds = []\<rparr>,
                    otherFields = []\<rparr>;
          loaded =
            (case file of
               Parsed parsed \<Rightarrow>
                 (if hooks parsed = None
                  then parsed\<lparr>hooks := Some \<lparr>beforeSubmitPrompt = None, stop = None, otherKinds = []\<rparr>\<rparr>
                  else parsed)
             | Malformed \<Rightarrow> fresh
             | NoFile \<Rightarrow> fresh);
          (startScript, stopScript) = getHookScriptPaths isWindows hookScriptPath
      in case updateHooks loaded EXTENSION_NAME startScript stopScript of
           Inl e \<Rightarrow> Inl e
         | Inr (modified, updated) \<Rightarrow> Inr (modified, if modified then Parsed updated else file))"

section \<open>checkHooksExist\<close>

definition findCursorBirdHooks :: "HooksJson \<Rightarrow> string \<Rightarrow> hook option \<times> hook option" where
  "findCursorBirdHooks doc extensionName =
     (let startHook =
            (case hooks doc of
               None \<Rightarrow> None
             | Some H \<Rightarrow> (case beforeSubmitPrompt H of
                            None \<Rightarrow> None
                          | Some xs \<Rightarrow> find (isCursorBird extensionName) xs));
          stopHook =
            (case hooks doc of
               None \<Rightarrow> None
             | Some H \<Rightarrow> (case stop H of
                            None \<Rightarrow> None
                          | Some xs \<Rightarrow> find (isCursorBird extensionName) xs))
      in (startHook, stopHook))"

text \<open>\<open>existsSync\<close> is \<^verbatim>\<open>fs.existsSync\<close> on the script paths.\<close>

definition validateHookPaths ::
  "(string \<Rightarrow> bool) \<Rightarrow> hook option \<Rightarrow> hook option \<Rightarrow> string \<Rightarrow> string \<Rightarrow> bool" where
  "validateHookPaths existsSync startHook stopHook expectedStart expectedStop =
     (let hasStart = (startHook \<noteq> None);
          hasStop = (stopHook \<noteq> None);
          startIsCorrect = (case startHook of None \<Rightarrow> False | Some h \<Rightarrow> command h = expectedStart);
          stopIsCorrect = (case stopHook of None \<Rightarrow> False | Some h \<Rightarrow> command h = expectedStop);
          startExists = (case startHook of
                           None \<Rightarrow> False
                         | Some h \<Rightarrow> if command h \<noteq> [] then existsSync (command h) else False);
          stopExists = (case stopHook of
                          None \<Rightarrow> False
                        | Some h \<Rightarrow> if command h \<noteq> [] then existsSync (command h) else False)
      in \<not> hasStart \<or> \<not> hasStop \<or> \<not> startIsCorrect \<or> \<not> stopIsCorrect
           \<or> \<not> startExists \<or> \<not> stopExists)"

datatype hook_location = Workspace | Global

text \<open>
  \<^verbatim>\<open>HookCheckResult\<close>; \<open>hookPaths\<close> is the pair \<^verbatim>\<open>{start, stop}\<close> of optional commands.
\<close>

record HookCheckResult =
  exists :: bool
  location :: "hook_location option"
  hookPaths :: "(string option \<times> string option) option"
  needsUpdate :: "bool option"

text \<open>
  \<open>homeDir\<close> is the result of \<^verbatim>\<open>getHomeDirectory()\<close> and \<open>file\<close> the state of
  \<^verbatim>\<open>hooks.json\<close> in its \<^verbatim>\<open>.cursor\<close> directory. A parse error is caught inside the function,
  which then falls through to \<^verbatim>\<open>return { exists: false }\<close>.
\<close>

definition checkHooksExist ::
  "bool \<Rightarrow> string option \<Rightarrow> (string \<Rightarrow> bool) \<Rightarrow> hooks_file \<Rightarrow> string \<Rightarrow> HookCheckResult" where
  "checkHooksExist isWindows homeDir existsSync file expectedScriptPath =
     (let (startScript, stopScript) = getHookScriptPaths isWindows expectedScriptPath;
          notFound = \<lparr>exists = False, location = None, hookPaths = None, needsUpdate = None\<rparr>
      in case homeDir of
           None \<Rightarrow> notFound
         | Some home \<Rightarrow>
             if home = [] then notFound
             else (case file of
                     NoFile \<Rightarrow> notFound
                   | Malformed \<Rightarrow> notFound
                   | Parsed doc \<Rightarrow>
                       (let (startHook, stopHook) = findCursorBirdHooks doc EXTENSION_NAME
                        in if startHook \<noteq> None \<or> stopHook \<noteq> None
                           then (let paths = (map_option command startHook, map_option command stopHook);
                                     needs = validateHookPaths existsSync startHook stopHook
                                               startScript stopScript
                                 in \<lparr>exists = True, location = Some Global,
                                     hookPaths = Some paths, needsUpdate = Some needs\<rparr>)
                           else notFound)))"

section \<open>Uninstall: removing the hooks from the global hooks.json\<close>

text \<open>
  Step 2 of uninstall.ts. The result is the file after the step and the number of entries
  removed (\<^verbatim>\<open>removedCount\<close>, which the script adds to \<^verbatim>\<open>cleanupCount\<close>). The file is
  written only when \<^verbatim>\<open>modified\<close> is set.
\<close>

definition globalHooksCleanup :: "string option \<Rightarrow> hooks_file \<Rightarrow> hooks_file \<times> nat" where
  "globalHooksCleanup homeDir file =
     (case homeDir of
        None \<Rightarrow> (file, 0)
      | Some home \<Rightarrow>
          if home = [] then (file, 0)
          else (case file of
                  NoFile \<Rightarrow> (file, 0)
                | Malformed \<Rightarrow> (file, 0)
                | Parsed doc \<Rightarrow>
                    (case hooks doc of
                       None \<Rightarrow> (file, 0)
                     | Some H \<Rightarrow>
                         let toRemoveStart =
                               (case beforeSubmitPrompt H of
                                  None \<Rightarrow> []
                                | Some xs \<Rightarrow> filter (isCursorBird EXTENSION_NAME) xs);
                             H1 = (if length toRemoveStart > 0
                                   then H\<lparr>beforeSubmitPrompt :=
                                            map_option (filter (\<lambda>h. \<not> isCursorBird EXTENSION_NAME h))
                                              (beforeSubmitPrompt H)\<rparr>
                                   else H);
                             toRemoveStop =
                               (case stop H1 of
                                  None \<Rightarrow> []
                                | Some xs \<Rightarrow> filter (isCursorBird EXTENSION_NAME) xs);
                             H2 = (if length toRemoveStop > 0
                                   then H1\<lparr>stop :=
                                             map_option (filter (\<lambda>h. \<not> isCursorBird EXTENSION_NAME h))
                                               (stop H1)\<rparr>
                                   else H1);
                             modified = (length toRemoveStart > 0 \<or> length toRemoveStop > 0);
                             removedCount = length toRemoveStart + length toRemoveStop
                         in if modified
                            then (Parsed (doc\<lparr>hooks := Some H2\<rparr>), removedCount)
                            else (file, 0))))"

section \<open>The generated hook payload script\<close>













section \<open>Notions used in the statements\<close>

text \<open>
  The entries of the two hook types, as the code reads them for its log line
  (\<^verbatim>\<open>hooks.hooks?.beforeSubmitPrompt\<close>, an absent array counting as empty), and the pair
  of arrays as stored.
\<close>

definition startHooks :: "HooksJson \<Rightarrow> hook list" where
  "startHooks doc =
     (case hooks doc of
        None \<Rightarrow> []
      | Some H \<Rightarrow> (case beforeSubmitPrompt H of None \<Rightarrow> [] | Some xs \<Rightarrow> xs))"

definition stopHooks :: "HooksJson \<Rightarrow> hook list" where
  "stopHooks doc =
     (case hooks doc of
        None \<Rightarrow> []
      | Some H \<Rightarrow> (case stop H of None \<Rightarrow> [] | Some xs \<Rightarrow> xs))"

definition hookArrays :: "HooksJson \<Rightarrow> hook list option \<times> hook list option" where
  "hookArrays doc =
     (case hooks doc of None \<Rightarrow> (None, None) | Some H \<Rightarrow> (beforeSubmitPrompt H, stop H))"



text \<open>
  The layout of an array after reconciliation as the specification words it: the foreign
  entries of the original array first, in their original order, then at most one entry of
  the extension.
\<close>

definition foreignFirstThenOwned :: "string \<Rightarrow> hook list \<Rightarrow> hook list \<Rightarrow> bool" where
  "foreignFirstThenOwned ext original result =
     (result = filter (\<lambda>h. \<not> isCursorBird ext h) original @ filter (isCursorBird ext) result
      \<and> length (filter (isCursorBird ext) result) \<le> 1)"

text \<open>
  The ownership test on an entry of a hook type the extension does not know, which the
  model keeps as a JSON value: an object whose \<^verbatim>\<open>command\<close> is a non-empty string that contains
  the extension name.
\<close>

definition jsonIsCursorBird :: "string \<Rightarrow> json \<Rightarrow> bool" where
  "jsonIsCursorBird ext entry =
     (case entry of
        JObj kvs \<Rightarrow>
          (case map_of kvs ''command'' of
             Some (JStr c) \<Rightarrow> c \<noteq> [] \<and> includes_str c ext
           | _ \<Rightarrow> False)
      | _ \<Rightarrow> False)"

definition ownedInOtherKinds :: "string \<Rightarrow> HooksJson \<Rightarrow> bool" where
  "ownedInOtherKinds ext doc =
     (case hooks doc of
        None \<Rightarrow> False
      | Some H \<Rightarrow>
          list_ex (\<lambda>kind. case snd kind of
                             JArr entries \<Rightarrow> list_ex (jsonIsCursorBird ext) entries
                           | _ \<Rightarrow> False)
                  (otherKinds H))"

text \<open>No entry of any hook type of the document belongs to the extension.\<close>

definition noOwnedEntries :: "string \<Rightarrow> HooksJson \<Rightarrow> bool" where
  "noOwnedEntries ext doc =
     (filter (isCursorBird ext) (startHooks doc) = []
      \<and> filter (isCursorBird ext) (stopHooks doc) = []
      \<and> \<not> ownedInOtherKinds ext doc)"

text \<open>
  What \<open>updateHooks\<close> does to one array, named for the proofs: the entries its filter keeps,
  and the array after the missing entry has been pushed.
\<close>

definition keptHooks :: "string \<Rightarrow> string \<Rightarrow> hook list \<Rightarrow> hook list" where
  "keptHooks ext script xs = filter (\<lambda>h. \<not> isCursorBird ext h \<or> command h = script) xs"

definition reconciled :: "string \<Rightarrow> string \<Rightarrow> hook list \<Rightarrow> hook list" where
  "reconciled ext script xs =
     (if \<exists>h \<in> set (keptHooks ext script xs). command h = script
      then keptHooks ext script xs
      else keptHooks ext script xs @ [\<lparr>command = script, props = []\<rparr>])"

text \<open>The document \<open>setupHooksFileGlobal\<close> hands to \<open>updateHooks\<close>.\<close>

definition loadedHooks :: "hooks_file \<Rightarrow> HooksJson" where
  "loadedHooks file =
     (case file of
        Parsed parsed \<Rightarrow>
          (if hooks parsed = None
           then parsed\<lparr>hooks := Some \<lparr>beforeSubmitPrompt = None, stop = None, otherKinds = []\<rparr>\<rparr>
           else parsed)
      | Malformed \<Rightarrow> \<lparr>version = 1,
                      hooks = Some \<lparr>beforeSubmitPrompt = None, stop = None, otherKinds = []\<rparr>,
                      otherFields = []\<rparr>
      | NoFile \<Rightarrow> \<lparr>version = 1,
                   hooks = Some \<lparr>beforeSubmitPrompt = None, stop = None, otherKinds = []\<rparr>,
                   otherFields = []\<rparr>)"

subsection \<open>Example documents\<close>

definition startPath :: string where
  "startPath = ''/ext/cursor-bird/dist/hook/hook.sh''"

definition stopPath :: string where
  "stopPath = ''/ext/cursor-bird/dist/hook/hook-stop.sh''"

definition otherStart :: hook where
  "otherStart = \<lparr>command = ''/other/extension/start.sh'', props = [(''timeout'', JNum (Finite 5))]\<rparr>"

definition otherStop :: hook where
  "otherStop = \<lparr>command = ''/other/extension/stop.sh'', props = []\<rparr>"

definition staleStart :: hook where
  "staleStart = \<lparr>command = ''/old/cursor-bird/hook.sh'', props = []\<rparr>"

definition staleStop :: hook where
  "staleStop = \<lparr>command = ''/old/cursor-bird/hook-stop.sh'', props = []\<rparr>"

text \<open>Another extension's entry and a stale entry of this extension in each hook type.\<close>

definition mixedDoc :: HooksJson where
  "mixedDoc =
     \<lparr>version = 1,
      hooks = Some \<lparr>beforeSubmitPrompt = Some [otherStart, staleStart],
                    stop = Some [staleStop, otherStop],
                    otherKinds = [(''afterFileEdit'',
                                   JArr [JObj [(''command'', JStr ''/other/extension/after.sh'')]])]\<rparr>,
      otherFields = [(''comment'', JStr ''shared'')]\<rparr>"

definition mixedDocUpdated :: HooksJson where
  "mixedDocUpdated =
     \<lparr>version = 1,
      hooks = Some \<lparr>beforeSubmitPrompt = Some [otherStart, \<lparr>command = startPath, props = []\<rparr>],
                    stop = Some [otherStop, \<lparr>command = stopPath, props = []\<rparr>],
                    otherKinds = [(''afterFileEdit'',
                                   JArr [JObj [(''command'', JStr ''/other/extension/after.sh'')]])]\<rparr>,
      otherFields = [(''comment'', JStr ''shared'')]\<rparr>"

text \<open>Three stale entries of the extension in one hook type, two in the other.\<close>

definition duplicatesDoc :: HooksJson where
  "duplicatesDoc =
     \<lparr>version = 1,
      hooks = Some \<lparr>beforeSubmitPrompt = Some [\<lparr>command = ''/path1/cursor-bird/hook.sh'', props = []\<rparr>,
                                               \<lparr>command = ''/path2/cursor-bird/hook.sh'', props = []\<rparr>,
                                               \<lparr>command = ''/path3/cursor-bird/hook.sh'', props = []\<rparr>],
                    stop = Some [\<lparr>command = ''/path1/cursor-bird/hook-stop.sh'', props = []\<rparr>,
                                 \<lparr>command = ''/path2/cursor-bird/hook-stop.sh'', props = []\<rparr>],
                    otherKinds = []\<rparr>,
      otherFields = []\<rparr>"

definition duplicatesDocUpdated :: HooksJson where
  "duplicatesDocUpdated =
     \<lparr>version = 1,
      hooks = Some \<lparr>beforeSubmitPrompt = Some [\<lparr>command = startPath, props = []\<rparr>],
                    stop = Some [\<lparr>command = stopPath, props = []\<rparr>],
                    otherKinds = []\<rparr>,
      otherFields = []\<rparr>"

text \<open>
  The extension's current entry stands before another extension's entry in one hook type,
  and twice in the other.
\<close>

definition orderDoc :: HooksJson where
  "orderDoc =
     \<lparr>version = 1,
      hooks = Some \<lparr>beforeSubmitPrompt = Some [\<lparr>command = startPath, props = []\<rparr>, otherStart],
                    stop = Some [\<lparr>command = stopPath, props = []\<rparr>,
                                 \<lparr>command = stopPath, props = []\<rparr>],
                    otherKinds = []\<rparr>,
      otherFields = []\<rparr>"

text \<open>An entry of the extension under a hook type other than the two it installs.\<close>

definition uninstallDoc :: HooksJson where
  "uninstallDoc =
     \<lparr>version = 1,
      hooks = Some \<lparr>beforeSubmitPrompt = Some [otherStart, staleStart],
                    stop = None,
                    otherKinds = [(''afterFileEdit'',
                                   JArr [JObj [(''command'', JStr ''/old/cursor-bird/after.sh'')]])]\<rparr>,
      otherFields = [(''comment'', JStr ''shared'')]\<rparr>"

definition uninstallDocCleaned :: HooksJson where
  "uninstallDocCleaned =
     \<lparr>version = 1,
      hooks = Some \<lparr>beforeSubmitPrompt = Some [otherStart],
                    stop = None,
                    otherKinds = [(''afterFileEdit'',
                                   JArr [JObj [(''command'', JStr ''/old/cursor-bird/after.sh'')]])]\<rparr>,
      otherFields = [(''comment'', JStr ''shared'')]\<rparr>"






section \<open>Rounding to a double\<close>

text \<open>Rounding to an integer moves a value by at most one half.\<close>

lemma roundHalfEven_near: "\<bar>of_int (roundHalfEven x) - x\<bar> \<le> 1 / 2"
proof -
  have "of_int \<lfloor>x\<rfloor> \<le> x" "x < of_int \<lfloor>x\<rfloor> + 1" by linarith+
  then show ?thesis unfolding roundHalfEven_def Let_def by (simp add: abs_if) linarith
qed

text \<open>\<^term>\<open>exponent a\<close> is the binary exponent of a positive \<^term>\<open>a\<close>: the power of two at or
  just below it.\<close>

lemma exponent_bounds:
  assumes "0 < a"
  shows "2 powi exponent a \<le> a \<and> a < 2 powi (exponent a + 1)"
proof (cases "1 \<le> a")
  case True
  define k where "k = \<lfloor>a\<rfloor>"
  have k: "0 < k" "of_int k \<le> a" "a < of_int k + 1"
    using True by (simp_all add: k_def) linarith+
  define b where "b = bitlen k"
  have b1: "1 \<le> b" using k(1) by (simp add: b_def bitlen_alt_def)
  have bb: "2 ^ nat (b - 1) \<le> k" "k < 2 ^ nat b"
    using bitlen_bounds[OF k(1)] by (simp_all add: b_def)
  have e: "exponent a = b - 1" using True by (simp add: exponent_def b_def k_def)
  have lo: "(2::rat) powi (b - 1) \<le> a"
  proof -
    have "(2::rat) powi (b - 1) = of_int (2 ^ nat (b - 1))"
      using b1 by (simp add: power_int_def)
    also have "\<dots> \<le> of_int k" using bb(1) by (simp only: of_int_le_iff)
    finally show ?thesis using k(2) by simp
  qed
  have hi: "a < (2::rat) powi b"
  proof -
    have "k + 1 \<le> 2 ^ nat b" using bb(2) by simp
    then have "(of_int (k + 1) :: rat) \<le> of_int (2 ^ nat b)" by (simp only: of_int_le_iff)
    also have "\<dots> = 2 powi b" using b1 by (simp add: power_int_def)
    finally show ?thesis using k(3) by simp
  qed
  from lo hi show ?thesis by (simp add: e)
next
  case False
  define x where "x = 1 / a"
  have x1: "1 < x" using assms False by (simp add: x_def)
  define j where "j = \<lceil>x\<rceil> - 1"
  have j: "of_int j < x" "x \<le> of_int j + 1" by (simp_all add: j_def) linarith
  have j0: "0 < j" using x1 by (simp add: j_def)
  define b where "b = bitlen j"
  have b1: "1 \<le> b" using j0 by (simp add: b_def bitlen_alt_def)
  have bb: "2 ^ nat (b - 1) \<le> j" "j < 2 ^ nat b"
    using bitlen_bounds[OF j0] by (simp_all add: b_def)
  have e: "exponent a = - b" using False by (simp add: exponent_def b_def j_def x_def)
  have xhi: "x \<le> 2 ^ nat b"
  proof -
    have "j + 1 \<le> 2 ^ nat b" using bb(2) by simp
    then have "(of_int (j + 1) :: rat) \<le> of_int (2 ^ nat b)" by (simp only: of_int_le_iff)
    also have "\<dots> = 2 ^ nat b" by simp
    finally have "(of_int j :: rat) + 1 \<le> 2 ^ nat b" by simp
    with j(2) show ?thesis by (rule order_trans)
  qed
  have xlo: "2 ^ nat (b - 1) < x"
  proof -
    have "(2::rat) ^ nat (b - 1) = of_int (2 ^ nat (b - 1))" by simp
    also have "\<dots> \<le> of_int j" using bb(1) by (simp only: of_int_le_iff)
    also have "\<dots> < x" by (rule j(1))
    finally show ?thesis .
  qed
  have a: "a = 1 / x" using assms by (simp add: x_def)
  have p1: "(2::rat) powi (- b) = 1 / 2 ^ nat b"
    using b1 by (simp add: power_int_def power_divide)
  have p2: "(2::rat) powi (- b + 1) = 1 / 2 ^ nat (b - 1)"
    using b1 by (simp add: power_int_def power_divide nat_diff_distrib)
  have lo: "(2::rat) powi (- b) \<le> a"
    unfolding p1 a using xhi x1 by (simp add: frac_le)
  have hi: "a < (2::rat) powi (- b + 1)"
    unfolding p2 a using xlo by (simp add: frac_less2)
  from lo hi show ?thesis by (simp add: e)
qed





lemma bitlen_numeral_simps:
  "bitlen 1 = 1"
  "bitlen (numeral (Num.Bit0 k)) = bitlen (numeral k) + 1"
  "bitlen (numeral (Num.Bit1 k)) = bitlen (numeral k) + 1"
proof -
  show "bitlen 1 = 1" by (subst compute_bitlen) simp
  show "bitlen (numeral (Num.Bit0 k)) = bitlen (numeral k) + 1"
    by (subst compute_bitlen) simp
  show "bitlen (numeral (Num.Bit1 k)) = bitlen (numeral k) + 1"
    by (subst compute_bitlen) simp
qed

lemma round64_positive:
  assumes "0 < r" and "exponent r = e" and "- 1022 \<le> e"
    and "roundHalfEven (r / 2 powi (e - 52)) = k"
    and "of_int k * 2 powi (e - 52) = v" and "v < 2 ^ 1024"
  shows "round64 r = Finite v"
proof -
  have m: "max (exponent r) (- 1022) = e" using assms(2,3) by simp
  have a: "\<bar>r\<bar> = r" using assms(1) by simp
  show ?thesis
    unfolding round64_def Let_def a m assms(4) assms(5)
    using assms(1,6) by simp
qed



lemma round64_tie_up: "round64 (2 ^ 53 + 3) = Finite (2 ^ 53 + 4)"
proof (rule round64_positive)
  show "(0::rat) < 2 ^ 53 + 3" by simp
  show "exponent (2 ^ 53 + 3) = 53" by (simp add: exponent_def bitlen_numeral_simps)
  show "- 1022 \<le> (53::int)" by simp
  have q: "(2::rat) powi (53 - 52) = 2" by simp
  have f: "\<lfloor>9007199254740995 / 2 :: rat\<rfloor> = 4503599627370497" by (simp add: floor_eq_iff)
  show "roundHalfEven ((2 ^ 53 + 3) / 2 powi (53 - 52)) = 2 ^ 52 + 2"
    unfolding q by (simp add: roundHalfEven_def Let_def f)
  show "of_int (2 ^ 52 + 2) * 2 powi (53 - 52) = (2 ^ 53 + 4 :: rat)" unfolding q by simp
  show "(2 ^ 53 + 4 :: rat) < 2 ^ 1024" by simp
qed

lemma round64_tenth: "round64 (1 / 10) = Finite (3602879701896397 / 36028797018963968)"
proof (rule round64_positive)
  show "(0::rat) < 1 / 10" by simp
  show "exponent (1 / 10) = - 4" by (simp add: exponent_def bitlen_numeral_simps)
  show "- 1022 \<le> (- 4::int)" by simp
  have q: "(2::rat) powi (- 4 - 52) = 1 / 2 ^ 56" by (simp add: power_int_minus)
  have f: "\<lfloor>36028797018963968 / 5 :: rat\<rfloor> = 7205759403792793" by (simp add: floor_eq_iff)
  show "roundHalfEven (1 / 10 / 2 powi (- 4 - 52)) = 7205759403792794"
    unfolding q by (simp add: roundHalfEven_def Let_def f)
  show "of_int 7205759403792794 * 2 powi (- 4 - 52) = (3602879701896397 / 36028797018963968 :: rat)"
    unfolding q by simp
  show "(3602879701896397 / 36028797018963968 :: rat) < 2 ^ 1024" by simp
qed


section \<open>What the hook script computes\<close>









section \<open>Facts about the examples\<close>

lemma startPath_marked: "includes_str startPath EXTENSION_NAME"
  by (simp add: includes_str_def startPath_def EXTENSION_NAME_def sublist_Cons_right)

lemma stopPath_marked: "includes_str stopPath EXTENSION_NAME"
  by (simp add: includes_str_def stopPath_def EXTENSION_NAME_def sublist_Cons_right)

lemma example_paths: "getHookScriptPaths False startPath = (startPath, stopPath)"
  by (simp add: getHookScriptPaths_def startPath_def stopPath_def suffix_to_prefix)

lemma otherStart_foreign: "\<not> isCursorBird EXTENSION_NAME otherStart"
  by (simp add: isCursorBird_def otherStart_def includes_str_def EXTENSION_NAME_def
      sublist_Cons_right)

lemma otherStop_foreign: "\<not> isCursorBird EXTENSION_NAME otherStop"
  by (simp add: isCursorBird_def otherStop_def includes_str_def EXTENSION_NAME_def
      sublist_Cons_right)

lemma staleStart_owned: "isCursorBird EXTENSION_NAME staleStart \<and> command staleStart \<noteq> startPath"
  by (simp add: isCursorBird_def staleStart_def startPath_def includes_str_def EXTENSION_NAME_def
      sublist_Cons_right)

lemma staleStop_owned: "isCursorBird EXTENSION_NAME staleStop \<and> command staleStop \<noteq> stopPath"
  by (simp add: isCursorBird_def staleStop_def stopPath_def includes_str_def EXTENSION_NAME_def
      sublist_Cons_right)

lemma current_owned:
  "isCursorBird EXTENSION_NAME \<lparr>command = startPath, props = ps\<rparr>"
  "isCursorBird EXTENSION_NAME \<lparr>command = stopPath, props = ps\<rparr>"
  using startPath_marked stopPath_marked
  by (auto simp: isCursorBird_def includes_str_def EXTENSION_NAME_def)

lemma other_commands:
  "command otherStart \<noteq> startPath" "command otherStop \<noteq> stopPath"
  by (simp_all add: otherStart_def otherStop_def startPath_def stopPath_def)

lemma updateHooks_mixedDoc:
  "updateHooks mixedDoc EXTENSION_NAME startPath stopPath = Inr (True, mixedDocUpdated)"
  using otherStart_foreign otherStop_foreign staleStart_owned staleStop_owned other_commands
  by (simp add: updateHooks_def mixedDoc_def mixedDocUpdated_def)

lemma duplicates_stale:
  "\<forall>h \<in> set (startHooks duplicatesDoc). isCursorBird EXTENSION_NAME h \<longrightarrow> command h \<noteq> startPath"
  "\<forall>h \<in> set (stopHooks duplicatesDoc). isCursorBird EXTENSION_NAME h \<longrightarrow> command h \<noteq> stopPath"
  by (simp_all add: duplicatesDoc_def startHooks_def stopHooks_def startPath_def stopPath_def)

lemma duplicates_owned:
  "filter (isCursorBird EXTENSION_NAME) (startHooks duplicatesDoc) = startHooks duplicatesDoc"
  "filter (isCursorBird EXTENSION_NAME) (stopHooks duplicatesDoc) = stopHooks duplicatesDoc"
  by (simp_all add: duplicatesDoc_def startHooks_def stopHooks_def isCursorBird_def
      includes_str_def EXTENSION_NAME_def sublist_Cons_right)

lemma updateHooks_duplicatesDoc:
  "updateHooks duplicatesDoc EXTENSION_NAME startPath stopPath = Inr (True, duplicatesDocUpdated)"
  by (simp add: updateHooks_def duplicatesDoc_def duplicatesDocUpdated_def isCursorBird_def
      includes_str_def EXTENSION_NAME_def sublist_Cons_right startPath_def stopPath_def)

lemma orderDoc_unchanged:
  "updateHooks orderDoc EXTENSION_NAME startPath stopPath = Inr (False, orderDoc)"
  using otherStart_foreign current_owned
  by (simp add: updateHooks_def orderDoc_def)

lemma uninstallDoc_cleaned:
  "globalHooksCleanup (Some ''/home/user'') (Parsed uninstallDoc) = (Parsed uninstallDocCleaned, 1)"
  using otherStart_foreign staleStart_owned
  by (simp add: globalHooksCleanup_def uninstallDoc_def uninstallDocCleaned_def)

lemma mixedDoc_arrays:
  "startHooks mixedDoc = [otherStart, staleStart]"
  "stopHooks mixedDoc = [staleStop, otherStop]"
  "startHooks mixedDocUpdated = [otherStart, \<lparr>command = startPath, props = []\<rparr>]"
  "stopHooks mixedDocUpdated = [otherStop, \<lparr>command = stopPath, props = []\<rparr>]"
  by (simp_all add: mixedDoc_def mixedDocUpdated_def startHooks_def stopHooks_def)


section \<open>What updateHooks computes\<close>

lemma filter_length_eq: "length (filter P xs) = length xs \<longleftrightarrow> filter P xs = xs"
proof
  assume len: "length (filter P xs) = length xs"
  have "\<forall>x \<in> set xs. P x"
  proof (rule ccontr)
    assume "\<not> (\<forall>x \<in> set xs. P x)"
    then obtain x where "x \<in> set xs" and "\<not> P x" by blast
    then have "length (filter P xs) < length xs" by (rule length_filter_less)
    with len show False by simp
  qed
  then show "filter P xs = xs" by (simp add: filter_id_conv)
next
  assume "filter P xs = xs"
  then show "length (filter P xs) = length xs" by simp
qed

lemma keptHooks_idem: "keptHooks ext s (keptHooks ext s xs) = keptHooks ext s xs"
  by (simp add: keptHooks_def)

lemma keptHooks_eq_iff: "length (keptHooks ext s xs) = length xs \<longleftrightarrow> keptHooks ext s xs = xs"
  unfolding keptHooks_def by (rule filter_length_eq)

lemma reconciled_has: "\<exists>h \<in> set (reconciled ext s xs). command h = s"
  by (auto simp: reconciled_def)

lemma keptHooks_reconciled: "keptHooks ext s (reconciled ext s xs) = reconciled ext s xs"
  by (auto simp: reconciled_def keptHooks_def)

lemma reconciled_idem: "reconciled ext s (reconciled ext s xs) = reconciled ext s xs"
proof -
  have "\<exists>h \<in> set (keptHooks ext s (reconciled ext s xs)). command h = s"
    using reconciled_has[of ext s xs] by (simp add: keptHooks_reconciled)
  then have "reconciled ext s (reconciled ext s xs) = keptHooks ext s (reconciled ext s xs)"
    unfolding reconciled_def[of ext s "reconciled ext s xs"] by (rule if_P)
  then show ?thesis by (simp add: keptHooks_reconciled)
qed

lemma reconciled_eq_iff:
  "reconciled ext s xs = xs \<longleftrightarrow>
     length (keptHooks ext s xs) = length xs \<and> (\<exists>h \<in> set (keptHooks ext s xs). command h = s)"
proof
  assume eq: "reconciled ext s xs = xs"
  have k: "keptHooks ext s xs = xs"
    using keptHooks_reconciled[of ext s xs] eq by simp
  have "\<exists>h \<in> set xs. command h = s"
    using reconciled_has[of ext s xs] eq by simp
  with k show "length (keptHooks ext s xs) = length xs \<and> (\<exists>h \<in> set (keptHooks ext s xs). command h = s)"
    by simp
next
  assume a: "length (keptHooks ext s xs) = length xs \<and> (\<exists>h \<in> set (keptHooks ext s xs). command h = s)"
  then have k: "keptHooks ext s xs = xs" by (simp add: keptHooks_eq_iff)
  from a have "reconciled ext s xs = keptHooks ext s xs" by (simp add: reconciled_def)
  with k show "reconciled ext s xs = xs" by simp
qed

lemma updateHooks_Some:
  assumes "hooks doc = Some H"
  shows "updateHooks doc ext s t =
    Inr (length (keptHooks ext s (startHooks doc)) \<noteq> length (startHooks doc)
           \<or> length (keptHooks ext t (stopHooks doc)) \<noteq> length (stopHooks doc)
           \<or> \<not> (\<exists>h \<in> set (keptHooks ext s (startHooks doc)). command h = s)
           \<or> \<not> (\<exists>h \<in> set (keptHooks ext t (stopHooks doc)). command h = t),
         doc\<lparr>hooks := Some (H\<lparr>beforeSubmitPrompt := Some (reconciled ext s (startHooks doc)),
                                stop := Some (reconciled ext t (stopHooks doc))\<rparr>)\<rparr>)"
proof -
  have f: "(\<lambda>h. if \<not> isCursorBird ext h then True else command h = x) =
           (\<lambda>h. \<not> isCursorBird ext h \<or> command h = x)" for x
    by auto
  have s0: "(case beforeSubmitPrompt H of None \<Rightarrow> [] | Some xs \<Rightarrow> xs) = startHooks doc"
    and t0: "(case stop H of None \<Rightarrow> [] | Some xs \<Rightarrow> xs) = stopHooks doc"
    by (simp_all add: startHooks_def stopHooks_def assms)
  show ?thesis
    unfolding updateHooks_def Let_def list_ex_iff f
    apply (simp add: assms s0 t0 keptHooks_def reconciled_def)
    apply blast
    done
qed

lemma updateHooks_Inr:
  assumes "updateHooks doc ext s t = Inr (m, doc')"
  obtains H where "hooks doc = Some H"
  using assms by (cases "hooks doc") (simp_all add: updateHooks_def)

lemma startHooks_updated [simp]:
  "startHooks (doc\<lparr>hooks := Some (H\<lparr>beforeSubmitPrompt := Some xs, stop := Some ys\<rparr>)\<rparr>) = xs"
  by (simp add: startHooks_def)

lemma stopHooks_updated [simp]:
  "stopHooks (doc\<lparr>hooks := Some (H\<lparr>beforeSubmitPrompt := Some xs, stop := Some ys\<rparr>)\<rparr>) = ys"
  by (simp add: stopHooks_def)

lemma updateHooks_again:
  assumes "updateHooks doc ext s t = Inr (m, doc')"
  shows "updateHooks doc' ext s t = Inr (False, doc')"
proof -
  from assms obtain H where H: "hooks doc = Some H" by (rule updateHooks_Inr)
  define H' where "H' = H\<lparr>beforeSubmitPrompt := Some (reconciled ext s (startHooks doc)),
                           stop := Some (reconciled ext t (stopHooks doc))\<rparr>"
  from assms have doc': "doc' = doc\<lparr>hooks := Some H'\<rparr>"
    by (simp add: updateHooks_Some[OF H] H'_def)
  have H'': "hooks doc' = Some H'" by (simp add: doc')
  have st: "startHooks doc' = reconciled ext s (startHooks doc)"
    and sp: "stopHooks doc' = reconciled ext t (stopHooks doc)"
    by (simp_all add: doc' H'_def)
  have same: "doc'\<lparr>hooks := Some (H'\<lparr>beforeSubmitPrompt := Some (reconciled ext s (startHooks doc)),
                                       stop := Some (reconciled ext t (stopHooks doc))\<rparr>)\<rparr> = doc'"
    by (simp add: doc' H'_def)
  show ?thesis
    using reconciled_has[of ext s "startHooks doc"] reconciled_has[of ext t "stopHooks doc"]
    by (simp add: updateHooks_Some[OF H''] st sp reconciled_idem keptHooks_reconciled same)
qed

lemma updateHooks_modified_iff:
  assumes "updateHooks doc ext s t = Inr (m, doc')"
  shows "m \<longleftrightarrow> hookArrays doc' \<noteq> hookArrays doc"
proof -
  from assms obtain H where H: "hooks doc = Some H" by (rule updateHooks_Inr)
  from assms have doc': "doc' = doc\<lparr>hooks := Some (H\<lparr>beforeSubmitPrompt := Some (reconciled ext s (startHooks doc)),
                           stop := Some (reconciled ext t (stopHooks doc))\<rparr>)\<rparr>"
    and m: "m = (length (keptHooks ext s (startHooks doc)) \<noteq> length (startHooks doc)
           \<or> length (keptHooks ext t (stopHooks doc)) \<noteq> length (stopHooks doc)
           \<or> \<not> (\<exists>h \<in> set (keptHooks ext s (startHooks doc)). command h = s)
           \<or> \<not> (\<exists>h \<in> set (keptHooks ext t (stopHooks doc)). command h = t))"
    by (simp_all add: updateHooks_Some[OF H])
  have arr': "hookArrays doc' = (Some (reconciled ext s (startHooks doc)), Some (reconciled ext t (stopHooks doc)))"
    by (simp add: doc' hookArrays_def)
  have arr: "hookArrays doc = (beforeSubmitPrompt H, stop H)"
    by (simp add: hookArrays_def H)
  have m': "m \<longleftrightarrow> reconciled ext s (startHooks doc) \<noteq> startHooks doc
                 \<or> reconciled ext t (stopHooks doc) \<noteq> stopHooks doc"
    unfolding m reconciled_eq_iff by blast
  show ?thesis
  proof (cases "beforeSubmitPrompt H")
    case None
    then have "startHooks doc = []" by (simp add: startHooks_def H)
    then have "reconciled ext s (startHooks doc) \<noteq> startHooks doc"
      by (simp add: reconciled_def keptHooks_def)
    with None show ?thesis by (simp add: m' arr' arr)
  next
    case (Some xs)
    note xs = this
    show ?thesis
    proof (cases "stop H")
      case None
      then have "stopHooks doc = []" by (simp add: stopHooks_def H)
      then have "reconciled ext t (stopHooks doc) \<noteq> stopHooks doc"
        by (simp add: reconciled_def keptHooks_def)
      with None show ?thesis by (simp add: m' arr' arr)
    next
      case (Some ys)
      with xs show ?thesis
        by (simp add: m' arr' arr startHooks_def stopHooks_def H)
    qed
  qed
qed

lemma updateHooks_unmodified:
  assumes "updateHooks doc ext s t = Inr (False, doc')"
  shows "doc' = doc"
proof -
  from assms obtain H where H: "hooks doc = Some H" by (rule updateHooks_Inr)
  from assms have doc': "doc' = doc\<lparr>hooks := Some (H\<lparr>beforeSubmitPrompt := Some (reconciled ext s (startHooks doc)),
                           stop := Some (reconciled ext t (stopHooks doc))\<rparr>)\<rparr>"
    by (simp add: updateHooks_Some[OF H])
  from updateHooks_modified_iff[OF assms] have "hookArrays doc' = hookArrays doc" by simp
  then have "beforeSubmitPrompt H = Some (reconciled ext s (startHooks doc))"
    and "stop H = Some (reconciled ext t (stopHooks doc))"
    using H by (simp_all add: doc' hookArrays_def)
  then have "H\<lparr>beforeSubmitPrompt := Some (reconciled ext s (startHooks doc)),
                           stop := Some (reconciled ext t (stopHooks doc))\<rparr> = H"
    by simp
  then show ?thesis using H by (simp add: doc')
qed

lemma setupHooksFileGlobal_alt:
  "setupHooksFileGlobal w file p =
     (case updateHooks (loadedHooks file) EXTENSION_NAME
             (fst (getHookScriptPaths w p)) (snd (getHookScriptPaths w p)) of
        Inl e \<Rightarrow> Inl e
      | Inr (modified, updated) \<Rightarrow> Inr (modified, if modified then Parsed updated else file))"
  by (cases "file"; hypsubst)
     (simp_all add: setupHooksFileGlobal_def loadedHooks_def Let_def split_beta)

lemma setupHooksFileGlobal_again:
  assumes "setupHooksFileGlobal w file p = Inr (m, file')"
  shows "setupHooksFileGlobal w file' p = Inr (False, file')"
proof -
  define s where "s = fst (getHookScriptPaths w p)"
  define t where "t = snd (getHookScriptPaths w p)"
  from assms obtain u where u: "updateHooks (loadedHooks file) EXTENSION_NAME s t = Inr (m, u)"
    and file': "file' = (if m then Parsed u else file)"
    by (auto simp: setupHooksFileGlobal_alt s_def t_def split: sum.splits)
  show ?thesis
  proof (cases m)
    case True
    from u obtain H where "hooks (loadedHooks file) = Some H" by (rule updateHooks_Inr)
    with u have "hooks u \<noteq> None" by (auto simp: updateHooks_Some)
    then have "loadedHooks (Parsed u) = u" by (simp add: loadedHooks_def)
    with updateHooks_again[OF u] True file' show ?thesis
      by (simp add: setupHooksFileGlobal_alt s_def t_def)
  next
    case False
    with file' assms show ?thesis by simp
  qed
qed

lemma updateHooks_result:
  assumes "updateHooks doc ext s t = Inr (m, doc')"
  shows "startHooks doc' = reconciled ext s (startHooks doc)"
    and "stopHooks doc' = reconciled ext t (stopHooks doc)"
    and "version doc' = version doc"
    and "otherFields doc' = otherFields doc"
    and "map_option otherKinds (hooks doc') = map_option otherKinds (hooks doc)"
proof -
  from assms obtain H where H: "hooks doc = Some H" by (rule updateHooks_Inr)
  from assms have doc': "doc' = doc\<lparr>hooks := Some (H\<lparr>beforeSubmitPrompt := Some (reconciled ext s (startHooks doc)),
                           stop := Some (reconciled ext t (stopHooks doc))\<rparr>)\<rparr>"
    by (simp add: updateHooks_Some[OF H])
  show "startHooks doc' = reconciled ext s (startHooks doc)"
    and "stopHooks doc' = reconciled ext t (stopHooks doc)"
    and "version doc' = version doc"
    and "otherFields doc' = otherFields doc"
    and "map_option otherKinds (hooks doc') = map_option otherKinds (hooks doc)"
    by (simp_all add: doc' H)
qed

lemma reconciled_owned_current:
  "h \<in> set (reconciled ext s xs) \<Longrightarrow> isCursorBird ext h \<Longrightarrow> command h = s"
  by (auto simp: reconciled_def keptHooks_def split: if_splits)

lemma keptHooks_absent:
  assumes "\<forall>h \<in> set xs. command h \<noteq> s"
  shows "keptHooks ext s xs = filter (\<lambda>h. \<not> isCursorBird ext h) xs"
  unfolding keptHooks_def using assms by (intro filter_cong) auto

lemma reconciled_absent:
  assumes "\<forall>h \<in> set xs. command h \<noteq> s"
  shows "reconciled ext s xs = filter (\<lambda>h. \<not> isCursorBird ext h) xs @ [\<lparr>command = s, props = []\<rparr>]"
proof -
  have "\<not> (\<exists>h \<in> set (keptHooks ext s xs). command h = s)"
    using assms by (auto simp: keptHooks_def)
  then show ?thesis by (simp add: reconciled_def keptHooks_absent[OF assms])
qed

lemma reconciled_present:
  assumes "\<exists>h \<in> set xs. command h = s"
  shows "reconciled ext s xs = filter (\<lambda>h. \<not> isCursorBird ext h \<or> command h = s) xs"
proof -
  have "\<exists>h \<in> set (keptHooks ext s xs). command h = s"
    using assms by (auto simp: keptHooks_def)
  then show ?thesis by (simp add: reconciled_def keptHooks_def)
qed

lemma marker_nonempty: "includes_str s EXTENSION_NAME \<Longrightarrow> s \<noteq> []"
  by (auto simp: includes_str_def EXTENSION_NAME_def)

lemma isCursorBird_current:
  "includes_str s EXTENSION_NAME \<Longrightarrow> isCursorBird EXTENSION_NAME \<lparr>command = s, props = ps\<rparr>"
  by (simp add: isCursorBird_def marker_nonempty)

lemma stale_absent:
  assumes "includes_str s EXTENSION_NAME"
    and "\<forall>h \<in> set xs. isCursorBird EXTENSION_NAME h \<longrightarrow> command h \<noteq> s"
  shows "\<forall>h \<in> set xs. command h \<noteq> s"
proof
  fix h assume h: "h \<in> set xs"
  show "command h \<noteq> s"
  proof
    assume eq: "command h = s"
    then have "isCursorBird EXTENSION_NAME h"
      using assms(1) by (simp add: isCursorBird_def marker_nonempty)
    with assms(2) h eq show False by blast
  qed
qed

lemma reconciled_all_stale:
  assumes "includes_str s EXTENSION_NAME"
    and "\<forall>h \<in> set xs. isCursorBird EXTENSION_NAME h \<longrightarrow> command h \<noteq> s"
  shows "reconciled EXTENSION_NAME s xs =
           filter (\<lambda>h. \<not> isCursorBird EXTENSION_NAME h) xs @ [\<lparr>command = s, props = []\<rparr>]"
    and "filter (isCursorBird EXTENSION_NAME) (reconciled EXTENSION_NAME s xs) = [\<lparr>command = s, props = []\<rparr>]"
    and "filter (\<lambda>h. \<not> isCursorBird EXTENSION_NAME h) (reconciled EXTENSION_NAME s xs) =
           filter (\<lambda>h. \<not> isCursorBird EXTENSION_NAME h) xs"
proof -
  show r: "reconciled EXTENSION_NAME s xs =
           filter (\<lambda>h. \<not> isCursorBird EXTENSION_NAME h) xs @ [\<lparr>command = s, props = []\<rparr>]"
    by (rule reconciled_absent) (rule stale_absent[OF assms])
  show "filter (isCursorBird EXTENSION_NAME) (reconciled EXTENSION_NAME s xs) = [\<lparr>command = s, props = []\<rparr>]"
    by (simp add: r isCursorBird_current[OF assms(1)])
  show "filter (\<lambda>h. \<not> isCursorBird EXTENSION_NAME h) (reconciled EXTENSION_NAME s xs) =
           filter (\<lambda>h. \<not> isCursorBird EXTENSION_NAME h) xs"
    by (simp add: r isCursorBird_current[OF assms(1)])
qed


lemma filter_none_owned:
  "filter P xs = [] \<Longrightarrow> filter (\<lambda>h. \<not> P h) xs = xs"
  by (simp add: filter_empty_conv filter_id_conv)

lemma cleanup_Some:
  assumes "home \<noteq> []" and "hooks doc = Some H"
  shows "globalHooksCleanup (Some home) (Parsed doc) =
    (if filter (isCursorBird EXTENSION_NAME) (startHooks doc) = []
        \<and> filter (isCursorBird EXTENSION_NAME) (stopHooks doc) = []
     then (Parsed doc, 0)
     else (Parsed (doc\<lparr>hooks := Some (H\<lparr>
              beforeSubmitPrompt := map_option (filter (\<lambda>h. \<not> isCursorBird EXTENSION_NAME h)) (beforeSubmitPrompt H),
              stop := map_option (filter (\<lambda>h. \<not> isCursorBird EXTENSION_NAME h)) (stop H)\<rparr>)\<rparr>),
           length (filter (isCursorBird EXTENSION_NAME) (startHooks doc))
           + length (filter (isCursorBird EXTENSION_NAME) (stopHooks doc))))"
proof (cases "beforeSubmitPrompt H")
  case None
  note b = this
  show ?thesis
  proof (cases "stop H")
    case None
    with b assms show ?thesis
      by (simp add: globalHooksCleanup_def startHooks_def stopHooks_def)
  next
    case (Some ys)
    with b assms show ?thesis
      by (simp add: globalHooksCleanup_def startHooks_def stopHooks_def)
  qed
next
  case (Some xs)
  note b = this
  show ?thesis
  proof (cases "stop H")
    case None
    with b assms show ?thesis
      by (simp add: globalHooksCleanup_def startHooks_def stopHooks_def)
  next
    case (Some ys)
    show ?thesis
    proof (cases "filter (isCursorBird EXTENSION_NAME) xs = []")
      case True
      then have "H\<lparr>stop := Some zs\<rparr> =
        H\<lparr>beforeSubmitPrompt := Some (filter (\<lambda>h. \<not> isCursorBird EXTENSION_NAME h) xs),
          stop := Some zs\<rparr>" for zs
        using b by (simp add: filter_none_owned)
      with True b Some assms show ?thesis
        by (simp add: globalHooksCleanup_def startHooks_def stopHooks_def)
    next
      case False
      note x = this
      show ?thesis
      proof (cases "filter (isCursorBird EXTENSION_NAME) ys = []")
        case True
        then have "H\<lparr>beforeSubmitPrompt := Some zs\<rparr> =
          H\<lparr>beforeSubmitPrompt := Some zs,
            stop := Some (filter (\<lambda>h. \<not> isCursorBird EXTENSION_NAME h) ys)\<rparr>" for zs
          using Some by (simp add: filter_none_owned)
        with True x b Some assms show ?thesis
          by (simp add: globalHooksCleanup_def startHooks_def stopHooks_def)
      next
        case False
        with x b Some assms show ?thesis
          by (simp add: globalHooksCleanup_def startHooks_def stopHooks_def)
      qed
    qed
  qed
qed

lemma find_owned:
  assumes "find (isCursorBird ext) xs = Some h"
  shows "isCursorBird ext h"
  using assms by (auto simp: find_Some_iff)

section \<open>Idempotence of the reconciliation\<close>

lemma loadedHooks_has_hooks: "\<exists>H. hooks (loadedHooks file) = Some H"
  by (cases "file") (auto simp: loadedHooks_def)

lemma setupHooksFileGlobal_returns: "\<exists>m file'. setupHooksFileGlobal w file p = Inr (m, file')"
proof -
  obtain H where "hooks (loadedHooks file) = Some H"
    using loadedHooks_has_hooks by blast
  then show ?thesis
    by (simp add: setupHooksFileGlobal_alt updateHooks_Some)
qed

text \<open>
  Claim C1. Whatever the document, the extension name and the two expected script paths: when
  \<open>updateHooks\<close> has run, running it again on the resulting document with the same paths
  reports no modification and returns that document unchanged; the flag it returns is set
  exactly when one of the two hook arrays differs from what was stored, and an unset flag
  leaves the whole document as it was. On the file, \<open>setupHooksFileGlobal\<close> always returns,
  a second call reports \<open>False\<close> and leaves the file as the first call left it, and the file
  differs after a call only if that call reported a modification.
\<close>

theorem reconcile_idempotent:
  "(updateHooks doc ext s t = Inr (m, doc') \<longrightarrow>
      updateHooks doc' ext s t = Inr (False, doc')
      \<and> (m \<longleftrightarrow> hookArrays doc' \<noteq> hookArrays doc)
      \<and> (\<not> m \<longrightarrow> doc' = doc))
   \<and> (\<exists>m2 file'. setupHooksFileGlobal w file p = Inr (m2, file')
      \<and> setupHooksFileGlobal w file' p = Inr (False, file')
      \<and> (file' \<noteq> file \<longrightarrow> m2))"
proof (intro conjI impI)
  assume a: "updateHooks doc ext s t = Inr (m, doc')"
  show "updateHooks doc' ext s t = Inr (False, doc')" using a by (rule updateHooks_again)
  show "m \<longleftrightarrow> hookArrays doc' \<noteq> hookArrays doc" using a by (rule updateHooks_modified_iff)
  show "doc' = doc" if "\<not> m" using a that by (simp add: updateHooks_unmodified)
next
  obtain m2 file' where b: "setupHooksFileGlobal w file p = Inr (m2, file')"
    using setupHooksFileGlobal_returns by blast
  have "setupHooksFileGlobal w file' p = Inr (False, file')"
    using b by (rule setupHooksFileGlobal_again)
  moreover have "file' \<noteq> file \<longrightarrow> m2"
    using b by (auto simp: setupHooksFileGlobal_alt split: sum.splits if_splits)
  ultimately show "\<exists>m2 file'. setupHooksFileGlobal w file p = Inr (m2, file')
      \<and> setupHooksFileGlobal w file' p = Inr (False, file')
      \<and> (file' \<noteq> file \<longrightarrow> m2)"
    using b by blast
qed

theorem reconcile_idempotent_witness:
  "updateHooks mixedDoc EXTENSION_NAME startPath stopPath = Inr (True, mixedDocUpdated)
   \<and> updateHooks mixedDocUpdated EXTENSION_NAME startPath stopPath = Inr (False, mixedDocUpdated)
   \<and> hookArrays mixedDocUpdated \<noteq> hookArrays mixedDoc
   \<and> setupHooksFileGlobal False (Parsed mixedDoc) startPath = Inr (True, Parsed mixedDocUpdated)
   \<and> setupHooksFileGlobal False (Parsed mixedDocUpdated) startPath
       = Inr (False, Parsed mixedDocUpdated)"
proof -
  have a: "updateHooks mixedDoc EXTENSION_NAME startPath stopPath = Inr (True, mixedDocUpdated)"
    by (rule updateHooks_mixedDoc)
  have "loadedHooks (Parsed mixedDoc) = mixedDoc"
    by (simp add: loadedHooks_def mixedDoc_def)
  then have b: "setupHooksFileGlobal False (Parsed mixedDoc) startPath
                  = Inr (True, Parsed mixedDocUpdated)"
    by (simp add: setupHooksFileGlobal_alt example_paths a)
  note idem = reconcile_idempotent[of mixedDoc EXTENSION_NAME startPath stopPath True
      mixedDocUpdated False "Parsed mixedDoc" startPath]
  from idem a
  have c: "updateHooks mixedDocUpdated EXTENSION_NAME startPath stopPath = Inr (False, mixedDocUpdated)"
    and d: "hookArrays mixedDocUpdated \<noteq> hookArrays mixedDoc"
    by blast+
  from idem obtain m2 file' where
    "setupHooksFileGlobal False (Parsed mixedDoc) startPath = Inr (m2, file')"
    and again: "setupHooksFileGlobal False file' startPath = Inr (False, file')"
    by blast
  with b have "file' = Parsed mixedDocUpdated" by simp
  with again have e: "setupHooksFileGlobal False (Parsed mixedDocUpdated) startPath
       = Inr (False, Parsed mixedDocUpdated)"
    by simp
  from a c d b e show ?thesis by blast
qed

section \<open>Non-destructive merge\<close>



section \<open>Stale and duplicate entries\<close>

text \<open>
  Claim C3. Whatever the document, after \<open>updateHooks\<close> every entry of the extension that is
  left in one of the two arrays has the expected path of its hook type as its command: each
  entry of the extension with another command has been dropped, however many there were. In
  particular, when the expected path is a path of the extension and no entry of the
  extension in the array had it (three stale entries with different paths, say), the array
  holds exactly one entry of the extension afterwards, and its command is the expected path.
\<close>

theorem duplicate_collapse:
  assumes upd: "updateHooks doc EXTENSION_NAME s t = Inr (m, doc')"
  shows "(\<forall>h \<in> set (startHooks doc'). isCursorBird EXTENSION_NAME h \<longrightarrow> command h = s)
       \<and> (\<forall>h \<in> set (stopHooks doc'). isCursorBird EXTENSION_NAME h \<longrightarrow> command h = t)
       \<and> (includes_str s EXTENSION_NAME
            \<and> (\<forall>h \<in> set (startHooks doc). isCursorBird EXTENSION_NAME h \<longrightarrow> command h \<noteq> s)
          \<longrightarrow> filter (isCursorBird EXTENSION_NAME) (startHooks doc') = [\<lparr>command = s, props = []\<rparr>])
       \<and> (includes_str t EXTENSION_NAME
            \<and> (\<forall>h \<in> set (stopHooks doc). isCursorBird EXTENSION_NAME h \<longrightarrow> command h \<noteq> t)
          \<longrightarrow> filter (isCursorBird EXTENSION_NAME) (stopHooks doc') = [\<lparr>command = t, props = []\<rparr>])"
  using reconciled_owned_current reconciled_all_stale(2)
  by (simp add: updateHooks_result[OF upd])

theorem duplicate_collapse_witness:
  "length (filter (isCursorBird EXTENSION_NAME) (startHooks duplicatesDoc)) = 3
   \<and> filter (isCursorBird EXTENSION_NAME) (startHooks duplicatesDocUpdated)
       = [\<lparr>command = startPath, props = []\<rparr>]
   \<and> filter (isCursorBird EXTENSION_NAME) (stopHooks duplicatesDocUpdated)
       = [\<lparr>command = stopPath, props = []\<rparr>]"
proof -
  have three: "length (filter (isCursorBird EXTENSION_NAME) (startHooks duplicatesDoc)) = 3"
    unfolding duplicates_owned by (simp add: duplicatesDoc_def startHooks_def)
  from duplicate_collapse[OF updateHooks_duplicatesDoc]
    startPath_marked stopPath_marked duplicates_stale three
  show ?thesis by blast
qed

section \<open>Validity of installed hooks\<close>

lemma findCursorBirdHooks_first:
  "findCursorBirdHooks doc ext =
     (find (isCursorBird ext) (startHooks doc), find (isCursorBird ext) (stopHooks doc))"
  by (simp add: findCursorBirdHooks_def startHooks_def stopHooks_def split: option.splits)

text \<open>
  Claim C4. Let the home directory be known and the hooks file parse to a document in which
  both hook types hold an entry of the extension: \<open>startHook\<close> is the first entry of
  \<^verbatim>\<open>beforeSubmitPrompt\<close> whose command contains the extension name, \<open>stopHook\<close> the first such
  entry of \<^verbatim>\<open>stop\<close>. Then \<open>checkHooksExist\<close> reports that the hooks exist, with the commands
  of these two entries, and it reports that no update is needed if and only if both
  commands equal the expected paths and both files exist. So an entry whose command is
  right but whose file is missing makes the hooks need an update.
\<close>

theorem checkHooksExist_valid_iff:
  assumes home: "home \<noteq> []"
    and start: "find (isCursorBird EXTENSION_NAME) (startHooks doc) = Some startHook"
    and stop: "find (isCursorBird EXTENSION_NAME) (stopHooks doc) = Some stopHook"
  shows "checkHooksExist w (Some home) existsSync (Parsed doc) p =
           \<lparr>exists = True, location = Some Global,
            hookPaths = Some (Some (command startHook), Some (command stopHook)),
            needsUpdate =
              Some (\<not> (command startHook = fst (getHookScriptPaths w p)
                       \<and> command stopHook = snd (getHookScriptPaths w p)
                       \<and> existsSync (command startHook)
                       \<and> existsSync (command stopHook)))\<rparr>"
proof -
  have found: "findCursorBirdHooks doc EXTENSION_NAME = (Some startHook, Some stopHook)"
    by (simp add: findCursorBirdHooks_first start stop)
  from find_owned[OF start] find_owned[OF stop]
  have ne: "command startHook \<noteq> []" "command stopHook \<noteq> []"
    by (simp_all add: isCursorBird_def)
  have v: "validateHookPaths existsSync (Some startHook) (Some stopHook) a b =
             (\<not> (command startHook = a \<and> command stopHook = b
                  \<and> existsSync (command startHook) \<and> existsSync (command stopHook)))" for a b
    by (auto simp: validateHookPaths_def ne)
  show ?thesis
    by (simp add: checkHooksExist_def split_beta home found v)
qed

theorem checkHooksExist_valid_iff_witness:
  "checkHooksExist False (Some ''/home/user'') (\<lambda>path. True) (Parsed mixedDocUpdated) startPath =
     \<lparr>exists = True, location = Some Global,
      hookPaths = Some (Some startPath, Some stopPath), needsUpdate = Some False\<rparr>
   \<and> checkHooksExist False (Some ''/home/user'') (\<lambda>path. path \<noteq> stopPath)
        (Parsed mixedDocUpdated) startPath =
     \<lparr>exists = True, location = Some Global,
      hookPaths = Some (Some startPath, Some stopPath), needsUpdate = Some True\<rparr>"
proof -
  have home: "''/home/user'' \<noteq> []" by simp
  have start: "find (isCursorBird EXTENSION_NAME) (startHooks mixedDocUpdated)
                 = Some \<lparr>command = startPath, props = []\<rparr>"
    using otherStart_foreign current_owned by (simp add: mixedDoc_arrays)
  have stop: "find (isCursorBird EXTENSION_NAME) (stopHooks mixedDocUpdated)
                = Some \<lparr>command = stopPath, props = []\<rparr>"
    using otherStop_foreign current_owned by (simp add: mixedDoc_arrays)
  note v = checkHooksExist_valid_iff[OF home start stop, of False _ startPath]
  show ?thesis
    by (simp add: v example_paths)
qed

section \<open>A hooks file that does not parse\<close>

text \<open>
  Claim C5. When the content of the hooks file is not valid JSON, \<open>checkHooksExist\<close> answers
  that no hooks exist, and the uninstall step removes nothing: it leaves the file as it is
  and counts 0 removed entries. Both are plain results of the functions, which catch the
  parse error themselves.
\<close>

theorem malformed_tolerated:
  "checkHooksExist w homeDir existsSync Malformed p =
     \<lparr>exists = False, location = None, hookPaths = None, needsUpdate = None\<rparr>
   \<and> globalHooksCleanup homeDir Malformed = (Malformed, 0)"
  by (simp add: checkHooksExist_def globalHooksCleanup_def split_beta split: option.splits)

theorem malformed_tolerated_witness:
  "checkHooksExist False (Some ''/home/user'') (\<lambda>path. True) Malformed startPath =
     \<lparr>exists = False, location = None, hookPaths = None, needsUpdate = None\<rparr>
   \<and> globalHooksCleanup (Some ''/home/user'') Malformed = (Malformed, 0)"
  by (rule malformed_tolerated)

section \<open>Removing the hooks on uninstall\<close>

text \<open>
  Claim C6, as amended. The uninstall step works on the two hook types \<^verbatim>\<open>beforeSubmitPrompt\<close>
  and \<^verbatim>\<open>stop\<close> only. With a known home directory and a hooks file that parses, it removes
  from these two arrays every entry whose command contains the extension name and keeps
  the other entries in their order; every other hook type, the version and every other
  top-level field stay as they are. The count it reports is the number of entries removed,
  and a document from which nothing is removed is left untouched.
\<close>

theorem uninstall_two_kinds:
  assumes home: "home \<noteq> []"
    and res: "globalHooksCleanup (Some home) (Parsed doc) = (file', removedCount)"
  shows "\<exists>doc'. file' = Parsed doc'
           \<and> startHooks doc' = filter (\<lambda>h. \<not> isCursorBird EXTENSION_NAME h) (startHooks doc)
           \<and> stopHooks doc' = filter (\<lambda>h. \<not> isCursorBird EXTENSION_NAME h) (stopHooks doc)
           \<and> map_option otherKinds (hooks doc') = map_option otherKinds (hooks doc)
           \<and> version doc' = version doc
           \<and> otherFields doc' = otherFields doc
           \<and> removedCount = length (filter (isCursorBird EXTENSION_NAME) (startHooks doc))
                            + length (filter (isCursorBird EXTENSION_NAME) (stopHooks doc))
           \<and> (removedCount = 0 \<longrightarrow> doc' = doc)"
proof (cases "hooks doc")
  case None
  with res home show ?thesis
    by (auto simp: globalHooksCleanup_def startHooks_def stopHooks_def)
next
  case (Some H)
  show ?thesis
  proof (cases "filter (isCursorBird EXTENSION_NAME) (startHooks doc) = []
        \<and> filter (isCursorBird EXTENSION_NAME) (stopHooks doc) = []")
    case True
    with res have "file' = Parsed doc" "removedCount = 0"
      by (simp_all add: cleanup_Some[OF home Some])
    with True show ?thesis by (simp add: filter_none_owned)
  next
    case False
    with res have f: "file' = Parsed (doc\<lparr>hooks := Some (H\<lparr>
              beforeSubmitPrompt := map_option (filter (\<lambda>h. \<not> isCursorBird EXTENSION_NAME h)) (beforeSubmitPrompt H),
              stop := map_option (filter (\<lambda>h. \<not> isCursorBird EXTENSION_NAME h)) (stop H)\<rparr>)\<rparr>)"
      and n: "removedCount = length (filter (isCursorBird EXTENSION_NAME) (startHooks doc))
           + length (filter (isCursorBird EXTENSION_NAME) (stopHooks doc))"
      by (simp_all add: cleanup_Some[OF home Some])
    from False n have "removedCount \<noteq> 0" by auto
    moreover have "startHooks (doc\<lparr>hooks := Some (H\<lparr>
              beforeSubmitPrompt := map_option (filter P) (beforeSubmitPrompt H),
              stop := map_option (filter P) (stop H)\<rparr>)\<rparr>) = filter P (startHooks doc)" for P
      using Some by (cases "beforeSubmitPrompt H") (simp_all add: startHooks_def)
    moreover have "stopHooks (doc\<lparr>hooks := Some (H\<lparr>
              beforeSubmitPrompt := map_option (filter P) (beforeSubmitPrompt H),
              stop := map_option (filter P) (stop H)\<rparr>)\<rparr>) = filter P (stopHooks doc)" for P
      using Some by (cases "stop H") (simp_all add: stopHooks_def)
    ultimately show ?thesis
      unfolding f using n Some by (simp, blast)
  qed
qed

theorem uninstall_two_kinds_witness:
  "startHooks uninstallDocCleaned
     = filter (\<lambda>h. \<not> isCursorBird EXTENSION_NAME h) (startHooks uninstallDoc)
   \<and> stopHooks uninstallDocCleaned
     = filter (\<lambda>h. \<not> isCursorBird EXTENSION_NAME h) (stopHooks uninstallDoc)
   \<and> map_option otherKinds (hooks uninstallDocCleaned) = map_option otherKinds (hooks uninstallDoc)
   \<and> version uninstallDocCleaned = version uninstallDoc
   \<and> otherFields uninstallDocCleaned = otherFields uninstallDoc
   \<and> (1::nat) = length (filter (isCursorBird EXTENSION_NAME) (startHooks uninstallDoc))
                + length (filter (isCursorBird EXTENSION_NAME) (stopHooks uninstallDoc))"
proof -
  have home: "''/home/user'' \<noteq> []" by simp
  from uninstall_two_kinds[OF home uninstallDoc_cleaned]
  obtain doc' where "Parsed uninstallDocCleaned = Parsed doc'"
    and r: "startHooks doc' = filter (\<lambda>h. \<not> isCursorBird EXTENSION_NAME h) (startHooks uninstallDoc)"
      "stopHooks doc' = filter (\<lambda>h. \<not> isCursorBird EXTENSION_NAME h) (stopHooks uninstallDoc)"
      "map_option otherKinds (hooks doc') = map_option otherKinds (hooks uninstallDoc)"
      "version doc' = version uninstallDoc"
      "otherFields doc' = otherFields uninstallDoc"
      "1 = length (filter (isCursorBird EXTENSION_NAME) (startHooks uninstallDoc))
           + length (filter (isCursorBird EXTENSION_NAME) (stopHooks uninstallDoc))"
    by blast
  then have "doc' = uninstallDocCleaned" by simp
  with r show ?thesis by blast
qed

text \<open>
  The claim as first stated, that entries of the extension are removed from every hook type,
  fails: an entry of the extension under another hook type is still there after the
  uninstall step.
\<close>

theorem uninstall_counterexample:
  "globalHooksCleanup (Some ''/home/user'') (Parsed uninstallDoc) = (Parsed uninstallDocCleaned, 1)
   \<and> ownedInOtherKinds EXTENSION_NAME uninstallDocCleaned
   \<and> \<not> noOwnedEntries EXTENSION_NAME uninstallDocCleaned"
proof -
  have "ownedInOtherKinds EXTENSION_NAME uninstallDocCleaned"
    by (simp add: ownedInOtherKinds_def uninstallDocCleaned_def jsonIsCursorBird_def
        includes_str_def EXTENSION_NAME_def sublist_Cons_right)
  then show ?thesis by (simp add: uninstallDoc_cleaned noOwnedEntries_def)
qed

section \<open>Order of the entries after reconciliation\<close>

text \<open>
  Claim C7, as amended. \<open>updateHooks\<close> removes entries and appends at most one; it never moves
  an entry. If no entry of the array has the expected path as its command, the array
  afterwards is the foreign entries in their original order followed by one new entry with
  the expected path. Otherwise the array afterwards is the original one without the entries
  of the extension whose command differs from the expected path: the foreign entries and the
  entries that already have the expected path keep their places relative to each other, and
  nothing is appended.
\<close>

theorem reconcile_order:
  assumes upd: "updateHooks doc ext s t = Inr (m, doc')"
  shows "startHooks doc' =
           (if \<exists>h \<in> set (startHooks doc). command h = s
            then filter (\<lambda>h. \<not> isCursorBird ext h \<or> command h = s) (startHooks doc)
            else filter (\<lambda>h. \<not> isCursorBird ext h) (startHooks doc) @ [\<lparr>command = s, props = []\<rparr>])
       \<and> stopHooks doc' =
           (if \<exists>h \<in> set (stopHooks doc). command h = t
            then filter (\<lambda>h. \<not> isCursorBird ext h \<or> command h = t) (stopHooks doc)
            else filter (\<lambda>h. \<not> isCursorBird ext h) (stopHooks doc) @ [\<lparr>command = t, props = []\<rparr>])"
  by (simp add: updateHooks_result[OF upd] reconciled_present reconciled_absent)

theorem reconcile_order_witness:
  "startHooks mixedDocUpdated =
     filter (\<lambda>h. \<not> isCursorBird EXTENSION_NAME h) (startHooks mixedDoc)
       @ [\<lparr>command = startPath, props = []\<rparr>]
   \<and> stopHooks orderDoc =
     filter (\<lambda>h. \<not> isCursorBird EXTENSION_NAME h \<or> command h = stopPath) (stopHooks orderDoc)"
proof -
  have absent: "\<not> (\<exists>h \<in> set (startHooks mixedDoc). command h = startPath)"
    using staleStart_owned other_commands by (simp add: mixedDoc_arrays)
  have present: "\<exists>h \<in> set (stopHooks orderDoc). command h = stopPath"
    by (simp add: orderDoc_def stopHooks_def)
  from reconcile_order[OF updateHooks_mixedDoc] absent
  have a: "startHooks mixedDocUpdated =
     filter (\<lambda>h. \<not> isCursorBird EXTENSION_NAME h) (startHooks mixedDoc)
       @ [\<lparr>command = startPath, props = []\<rparr>]"
    by presburger
  from reconcile_order[OF orderDoc_unchanged] present
  have b: "stopHooks orderDoc =
     filter (\<lambda>h. \<not> isCursorBird EXTENSION_NAME h \<or> command h = stopPath) (stopHooks orderDoc)"
    by presburger
  from a b show ?thesis by (rule conjI)
qed

text \<open>
  The claim as first stated, foreign entries first and then at most one entry of the
  extension, fails on a document that already holds the current entry before a foreign one,
  or holds it twice: the document is returned unchanged.
\<close>

theorem reconcile_order_counterexample:
  "updateHooks orderDoc EXTENSION_NAME startPath stopPath = Inr (False, orderDoc)
   \<and> startHooks orderDoc = [\<lparr>command = startPath, props = []\<rparr>, otherStart]
   \<and> isCursorBird EXTENSION_NAME \<lparr>command = startPath, props = []\<rparr>
   \<and> \<not> isCursorBird EXTENSION_NAME otherStart
   \<and> \<not> foreignFirstThenOwned EXTENSION_NAME (startHooks orderDoc) (startHooks orderDoc)
   \<and> length (filter (isCursorBird EXTENSION_NAME) (stopHooks orderDoc)) = 2
   \<and> \<not> foreignFirstThenOwned EXTENSION_NAME (stopHooks orderDoc) (stopHooks orderDoc)"
proof -
  have st: "startHooks orderDoc = [\<lparr>command = startPath, props = []\<rparr>, otherStart]"
    and sp: "stopHooks orderDoc = [\<lparr>command = stopPath, props = []\<rparr>,
                                   \<lparr>command = stopPath, props = []\<rparr>]"
    by (simp_all add: orderDoc_def startHooks_def stopHooks_def)
  have ne: "\<lparr>command = startPath, props = []\<rparr> \<noteq> otherStart"
    by (simp add: otherStart_def startPath_def)
  have a: "\<not> foreignFirstThenOwned EXTENSION_NAME (startHooks orderDoc) (startHooks orderDoc)"
    using otherStart_foreign current_owned(1)[of "[]"] ne
    by (simp add: st foreignFirstThenOwned_def)
  have b: "length (filter (isCursorBird EXTENSION_NAME) (stopHooks orderDoc)) = 2"
    using current_owned(2)[of "[]"] by (simp add: sp)
  have c: "\<not> foreignFirstThenOwned EXTENSION_NAME (stopHooks orderDoc) (stopHooks orderDoc)"
    using b by (simp add: foreignFirstThenOwned_def)
  show ?thesis
    using orderDoc_unchanged st current_owned(1)[of "[]"] otherStart_foreign a b c by blast
qed

section \<open>The status counter\<close>







section \<open>Reconciling a hooks file that does not parse\<close>

text \<open>
  Claim C10. When the hooks file exists but is not valid JSON, \<open>setupHooksFileGlobal\<close> starts from
  the document \<^verbatim>\<open>{ version: 1, hooks: {} }\<close>, reports a modification, and writes a document that
  holds the two entries with the expected paths, one per hook type, and nothing else.
\<close>

theorem malformed_starts_fresh:
  "setupHooksFileGlobal w Malformed p =
     Inr (True,
          Parsed \<lparr>version = 1,
                  hooks = Some \<lparr>beforeSubmitPrompt =
                                  Some [\<lparr>command = fst (getHookScriptPaths w p), props = []\<rparr>],
                                stop =
                                  Some [\<lparr>command = snd (getHookScriptPaths w p), props = []\<rparr>],
                                otherKinds = []\<rparr>,
                  otherFields = []\<rparr>)"
  by (simp add: setupHooksFileGlobal_def updateHooks_def split_beta)

theorem malformed_starts_fresh_witness:
  "setupHooksFileGlobal False Malformed startPath =
     Inr (True,
          Parsed \<lparr>version = 1,
                  hooks = Some \<lparr>beforeSubmitPrompt = Some [\<lparr>command = startPath, props = []\<rparr>],
                                stop = Some [\<lparr>command = stopPath, props = []\<rparr>],
                                otherKinds = []\<rparr>,
                  otherFields = []\<rparr>)"
  using malformed_starts_fresh[of False startPath] by (simp add: example_paths)

end
